theory Spec2Isabelle
  imports Main "HOL-Library.AList" "HOL-Library.Word"
begin

section \<open>Values exchanged with the server\<close>

text \<open>
  The client (\<^verbatim>\<open>yaradb_client/client.py\<close>) builds JSON request bodies and reads
  JSON response bodies. A Python \<^verbatim>\<open>dict\<close> is an association list in insertion order
  with distinct keys, looked up with \<open>map_of\<close>. Python floats are not inspected by the
  client anywhere, so they are an opaque type.
\<close>

typedecl pyfloat

datatype json =
    JNull
  | JBool bool
  | JInt int
  | JFloat pyfloat
  | JStr string
  | JList "json list"
  | JObj "(string \<times> json) list"

type_synonym dict = "(string \<times> json) list"

text \<open>
  \<^verbatim>\<open>str(x)\<close>: a \<^verbatim>\<open>str\<close> is returned unchanged; for every other JSON value Python
  returns \<^verbatim>\<open>repr(x)\<close>, which belongs to the interpreter and is a parameter here.
  An f-string field \<^verbatim>\<open>{x}\<close> formats \<^verbatim>\<open>x\<close> the same way.
\<close>

definition py_str :: "(json \<Rightarrow> string) \<Rightarrow> json \<Rightarrow> string" where
  "py_str repr v = (case v of JStr s \<Rightarrow> s | _ \<Rightarrow> repr v)"

text \<open>\<^verbatim>\<open>d.get(key, default)\<close> on a dict.\<close>

definition dict_get :: "dict \<Rightarrow> string \<Rightarrow> json \<Rightarrow> json" where
  "dict_get d k dflt = (case map_of d k of Some v \<Rightarrow> v | None \<Rightarrow> dflt)"

text \<open>\<^verbatim>\<open>s.rstrip(ch)\<close> for a single character \<^verbatim>\<open>ch\<close>.\<close>

definition rstrip :: "char \<Rightarrow> string \<Rightarrow> string" where
  "rstrip ch s = rev (dropWhile (\<lambda>x. x = ch) (rev s))"

subsection \<open>Document identifiers\<close>

text \<open>
  \<^verbatim>\<open>doc_id: Union[str, uuid.UUID]\<close>. A \<^verbatim>\<open>uuid.UUID\<close> holds a 128-bit integer; its
  \<^verbatim>\<open>__str__\<close> prints the integer as 32 lower-case hexadecimal digits
  (\<^verbatim>\<open>'%032x' % self.int\<close>) cut into groups of 8, 4, 4, 4 and 12 digits joined by
  hyphens.
\<close>

datatype doc_id = IdStr string | IdUUID "128 word"

definition hex_digit :: "nat \<Rightarrow> char" where
  "hex_digit d = ''0123456789abcdef'' ! (d mod 16)"

fun hex_of :: "nat \<Rightarrow> nat \<Rightarrow> string" where
  "hex_of 0 n = []"
| "hex_of (Suc k) n = hex_of k (n div 16) @ [hex_digit n]"

definition UUID_str :: "128 word \<Rightarrow> string" where
  "UUID_str u =
     (let h = hex_of 32 (unat u)
      in take 8 h @ ''-'' @ take 4 (drop 8 h) @ ''-'' @ take 4 (drop 12 h) @ ''-''
         @ take 4 (drop 16 h) @ ''-'' @ drop 20 h)"

fun str_doc_id :: "doc_id \<Rightarrow> string" where
  "str_doc_id (IdStr s) = s"
| "str_doc_id (IdUUID u) = UUID_str u"

section \<open>The transport\<close>

text \<open>
  One call of \<^verbatim>\<open>self.session.get/post/put/delete/request\<close>: the request that is sent,
  and what comes back, either a \<^verbatim>\<open>requests.Response\<close> or an exception of the
  \<^verbatim>\<open>requests\<close> library. Of a response the client reads \<^verbatim>\<open>status_code\<close>,
  \<^verbatim>\<open>text\<close> and \<^verbatim>\<open>json()\<close>. A call of \<^verbatim>\<open>json()\<close> has three outcomes: it returns the
  decoded value, it raises \<^verbatim>\<open>requests.JSONDecodeError\<close>, or the decoder raises an
  exception of another class, named by the class: \<^verbatim>\<open>ValueError\<close> for an integer literal
  longer than the interpreter's limit on digits, \<^verbatim>\<open>RecursionError\<close> for a body nested
  too deeply.
\<close>

datatype json_outcome =
    Returns json
  | Raises_JSONDecodeError
  | Raises string

record request =
  req_method :: string
  req_url :: string
  req_json :: "json option"
  req_params :: dict
  req_timeout :: "nat option"

record response =
  resp_status_code :: int
  resp_text :: string
  resp_json :: json_outcome

text \<open>
  The exception classes of \<^verbatim>\<open>requests\<close> that the \<^verbatim>\<open>except\<close> clauses tell apart, each
  with the text \<^verbatim>\<open>str(e)\<close> of the exception: \<^verbatim>\<open>ConnectTimeout\<close> derives from both
  \<^verbatim>\<open>ConnectionError\<close> and \<^verbatim>\<open>Timeout\<close>, \<^verbatim>\<open>ReadTimeout\<close> from \<^verbatim>\<open>Timeout\<close> only, and
  \<open>OtherRequestException\<close> is any exception that derives from neither.
\<close>

datatype requests_exc =
    ConnectionError string
  | ConnectTimeout string
  | ReadTimeout string
  | OtherRequestException string

fun isinstance_ConnectionError :: "requests_exc \<Rightarrow> bool" where
  "isinstance_ConnectionError (ConnectionError _) = True"
| "isinstance_ConnectionError (ConnectTimeout _) = True"
| "isinstance_ConnectionError _ = False"

fun isinstance_Timeout :: "requests_exc \<Rightarrow> bool" where
  "isinstance_Timeout (ConnectTimeout _) = True"
| "isinstance_Timeout (ReadTimeout _) = True"
| "isinstance_Timeout _ = False"

fun exc_str :: "requests_exc \<Rightarrow> string" where
  "exc_str (ConnectionError s) = s"
| "exc_str (ConnectTimeout s) = s"
| "exc_str (ReadTimeout s) = s"
| "exc_str (OtherRequestException s) = s"

section \<open>The error classes\<close>

text \<open>
  \<^verbatim>\<open>YaraError\<close> and its four subclasses. \<^verbatim>\<open>YaraError.__init__\<close> stores \<^verbatim>\<open>message\<close>
  and \<^verbatim>\<open>status_code\<close> (default \<^verbatim>\<open>None\<close>). The message is whatever value the caller
  passes: \<^verbatim>\<open>_handle_response\<close> passes the \<^verbatim>\<open>detail\<close> entry of the body as it was
  decoded, which need not be a string.
\<close>

datatype yara_class =
    YaraError
  | YaraConnectionError
  | YaraNotFoundError
  | YaraConflictError
  | YaraBadRequestError

record yara_exc =
  cls :: yara_class
  message :: json
  status_code :: "int option"

definition YaraError_init :: "yara_class \<Rightarrow> json \<Rightarrow> int option \<Rightarrow> yara_exc" where
  "YaraError_init k msg sc = \<lparr>cls = k, message = msg, status_code = sc\<rparr>"

definition YaraConnectionError_init :: "string \<Rightarrow> requests_exc \<Rightarrow> yara_exc" where
  "YaraConnectionError_init h original_error =
     YaraError_init YaraConnectionError
       (JStr (''Failed to connect to '' @ h @ ''. Is the server running? Error: ''
              @ exc_str original_error))
       None"

text \<open>
  What a method call can raise: one of the client's own errors, an exception of the
  transport that no \<^verbatim>\<open>except\<close> clause caught, the \<^verbatim>\<open>requests.JSONDecodeError\<close> of an
  unguarded \<^verbatim>\<open>response.json()\<close>, the \<^verbatim>\<open>AttributeError\<close> of calling \<^verbatim>\<open>.get\<close> on a
  decoded value that is not a dict, or an exception of another class that
  \<^verbatim>\<open>response.json()\<close> raised and no \<^verbatim>\<open>except\<close> clause caught.
\<close>

datatype exn =
    Yara yara_exc
  | Raised requests_exc
  | JSONDecodeError
  | AttributeError
  | PyException string

section \<open>The client\<close>

text \<open>
  \<^verbatim>\<open>YaraClient\<close> keeps the host and a \<^verbatim>\<open>requests.Session\<close>. The session is the
  network as the client sees it: a function from the request sent to the outcome.
\<close>

record YaraClient =
  host :: string
  session :: "request \<Rightarrow> requests_exc + response"

definition YaraClient_init :: "string option \<Rightarrow> (request \<Rightarrow> requests_exc + response) \<Rightarrow> YaraClient" where
  "YaraClient_init host_arg net =
     \<lparr>host = rstrip CHR ''/'' (case host_arg of None \<Rightarrow> ''http://127.0.0.1:8000'' | Some h \<Rightarrow> h),
      session = net\<rparr>"

subsection \<open>\<^verbatim>\<open>_handle_response\<close>\<close>

text \<open>
  Both calls of \<^verbatim>\<open>response.json()\<close> stand in a \<^verbatim>\<open>try\<close> whose only clause is
  \<^verbatim>\<open>except requests.JSONDecodeError\<close>: an exception of another class leaves
  \<^verbatim>\<open>_handle_response\<close> as it is. \<open>error_detail\<close> is the \<^verbatim>\<open>try\<close> statement of the lines
  51 to 58, which either binds \<^verbatim>\<open>error_detail\<close> or raises.
\<close>

definition error_detail :: "(json \<Rightarrow> string) \<Rightarrow> response \<Rightarrow> exn + json" where
  "error_detail repr r =
     (case resp_json r of
        Returns response_json \<Rightarrow>
          (case response_json of
             JObj d \<Rightarrow> Inr (dict_get d ''detail'' (JStr ''Unknown API error''))
           | _ \<Rightarrow> Inr (JStr (py_str repr response_json)))
      | Raises_JSONDecodeError \<Rightarrow>
          Inr (JStr (if resp_text r \<noteq> [] then resp_text r else ''Unknown API error''))
      | Raises x \<Rightarrow> Inl (PyException x))"

definition handle_response :: "(json \<Rightarrow> string) \<Rightarrow> response \<Rightarrow> exn + json" where
  "handle_response repr r =
     (if resp_status_code r = 200 then
        (case resp_json r of
           Returns v \<Rightarrow> Inr v
         | Raises_JSONDecodeError \<Rightarrow>
             Inl (Yara (YaraError_init YaraError
                    (JStr ''Invalid JSON response from server'') (Some (resp_status_code r))))
         | Raises x \<Rightarrow> Inl (PyException x))
      else
        (case error_detail repr r of
           Inl x \<Rightarrow> Inl x
         | Inr detail \<Rightarrow>
             if resp_status_code r = 404 then
               Inl (Yara (YaraError_init YaraNotFoundError detail (Some 404)))
             else if resp_status_code r = 409 then
               Inl (Yara (YaraError_init YaraConflictError detail (Some 409)))
             else if resp_status_code r = 400 then
               Inl (Yara (YaraError_init YaraBadRequestError detail (Some 400)))
             else if resp_status_code r = 422 then
               Inl (Yara (YaraError_init YaraBadRequestError
                      (JStr (''Validation Error: '' @ py_str repr detail)) (Some 422)))
             else
               Inl (Yara (YaraError_init YaraError detail (Some (resp_status_code r))))))"

subsection \<open>\<^verbatim>\<open>ping\<close>\<close>

definition ping_request :: "YaraClient \<Rightarrow> request" where
  "ping_request c =
     \<lparr>req_method = ''GET'', req_url = host c @ ''/ping'', req_json = None,
      req_params = [], req_timeout = Some 3\<rparr>"

definition ping :: "YaraClient \<Rightarrow> exn + bool" where
  "ping c =
     (case session c (ping_request c) of
        Inr r \<Rightarrow>
          (if resp_status_code r \<noteq> 200 then Inr False
           else (case resp_json r of
                   Raises_JSONDecodeError \<Rightarrow> Inl JSONDecodeError
                 | Raises x \<Rightarrow> Inl (PyException x)
                 | Returns (JObj d) \<Rightarrow> Inr (map_of d ''status'' = Some (JStr ''alive''))
                 | Returns _ \<Rightarrow> Inl AttributeError))
      | Inl e \<Rightarrow>
          (if isinstance_ConnectionError e then Inr False
           else if isinstance_Timeout e then Inr False
           else Inl (Raised e)))"

subsection \<open>The operations\<close>

text \<open>
  Every other method builds its URL and payload, makes one call on the session inside
  \<^verbatim>\<open>try\<close>, passes the response to \<^verbatim>\<open>_handle_response\<close>, and turns a
  \<^verbatim>\<open>requests.ConnectionError\<close> into \<^verbatim>\<open>YaraConnectionError(self.host, e)\<close>. The
  \<open>_request\<close> definitions are the first half of each method, \<open>send_and_handle\<close> is the
  \<^verbatim>\<open>try\<close> block they all share. An argument with a default value is an option:
  \<open>None\<close> is the call that leaves it out. The method \<^verbatim>\<open>find\<close> is \<open>find_documents\<close> here,
  since \<open>find\<close> is a function on lists.
\<close>

definition send_and_handle :: "YaraClient \<Rightarrow> (json \<Rightarrow> string) \<Rightarrow> request \<Rightarrow> exn + json" where
  "send_and_handle c repr req =
     (case session c req of
        Inr r \<Rightarrow> handle_response repr r
      | Inl e \<Rightarrow>
          (if isinstance_ConnectionError e then Inl (Yara (YaraConnectionError_init (host c) e))
           else Inl (Raised e)))"

definition http :: "string \<Rightarrow> string \<Rightarrow> json option \<Rightarrow> request" where
  "http m u body =
     \<lparr>req_method = m, req_url = u, req_json = body, req_params = [], req_timeout = None\<rparr>"

definition create_request :: "YaraClient \<Rightarrow> string \<Rightarrow> string \<Rightarrow> dict \<Rightarrow> request" where
  "create_request c table_name name body =
     http ''POST'' (host c @ ''/document/create'')
       (Some (JObj [(''table_name'', JStr table_name), (''name'', JStr name),
                    (''body'', JObj body)]))"

definition get_request :: "YaraClient \<Rightarrow> doc_id \<Rightarrow> request" where
  "get_request c doc_id =
     http ''GET'' (host c @ ''/document/get/'' @ str_doc_id doc_id) None"

definition find_request :: "YaraClient \<Rightarrow> dict \<Rightarrow> bool option \<Rightarrow> request" where
  "find_request c filter_body include_archived =
     (http ''POST'' (host c @ ''/document/find'') (Some (JObj filter_body)))
       \<lparr>req_params :=
          [(''include_archived'',
            JBool (case include_archived of None \<Rightarrow> False | Some b \<Rightarrow> b))]\<rparr>"

definition update_request :: "YaraClient \<Rightarrow> doc_id \<Rightarrow> int \<Rightarrow> dict \<Rightarrow> request" where
  "update_request c doc_id version body =
     http ''PUT'' (host c @ ''/document/update/'' @ str_doc_id doc_id)
       (Some (JObj [(''version'', JInt version), (''body'', JObj body)]))"

definition archive_request :: "YaraClient \<Rightarrow> doc_id \<Rightarrow> request" where
  "archive_request c doc_id =
     http ''PUT'' (host c @ ''/document/archive/'' @ str_doc_id doc_id) None"

definition combine_request :: "YaraClient \<Rightarrow> doc_id list \<Rightarrow> string \<Rightarrow> string option \<Rightarrow> request" where
  "combine_request c document_ids name merge_strategy =
     http ''POST'' (host c @ ''/document/combine'')
       (Some (JObj [(''name'', JStr name),
                    (''document_ids'', JList (map (\<lambda>doc_id. JStr (str_doc_id doc_id)) document_ids)),
                    (''merge_strategy'',
                     JStr (case merge_strategy of None \<Rightarrow> ''overwrite'' | Some s \<Rightarrow> s))]))"

text \<open>
  \<^verbatim>\<open>if schema:\<close> and \<^verbatim>\<open>if unique_fields:\<close> test truth values: \<^verbatim>\<open>None\<close>, the empty dict
  and the empty list are all false. \<^verbatim>\<open>payload[key] = value\<close> is \<open>AList.update\<close>: it replaces
  the entry of a key the dict has and appends a new key at the end.
\<close>

definition create_table_payload ::
  "string \<Rightarrow> string option \<Rightarrow> dict option \<Rightarrow> string list option \<Rightarrow> bool option \<Rightarrow> dict" where
  "create_table_payload name mode schema unique_fields read_only =
     (let payload = [(''name'', JStr name),
                     (''mode'', JStr (case mode of None \<Rightarrow> ''free'' | Some m \<Rightarrow> m)),
                     (''read_only'', JBool (case read_only of None \<Rightarrow> False | Some b \<Rightarrow> b))];
          payload = (case schema of
                       None \<Rightarrow> payload
                     | Some d \<Rightarrow> if d \<noteq> []
                                then AList.update ''schema_definition'' (JObj d) payload
                                else payload);
          payload = (case unique_fields of
                       None \<Rightarrow> payload
                     | Some fs \<Rightarrow> if fs \<noteq> []
                                 then AList.update ''unique_fields'' (JList (map JStr fs)) payload
                                 else payload)
      in payload)"

definition create_table_request ::
  "YaraClient \<Rightarrow> string \<Rightarrow> string option \<Rightarrow> dict option \<Rightarrow> string list option \<Rightarrow> bool option \<Rightarrow> request" where
  "create_table_request c name mode schema unique_fields read_only =
     http ''POST'' (host c @ ''/table/create'')
       (Some (JObj (create_table_payload name mode schema unique_fields read_only)))"

definition list_tables_request :: "YaraClient \<Rightarrow> request" where
  "list_tables_request c = http ''GET'' (host c @ ''/table/list'') None"

definition get_table_request :: "YaraClient \<Rightarrow> string \<Rightarrow> request" where
  "get_table_request c name = http ''GET'' (host c @ ''/table/'' @ name) None"

definition delete_table_request :: "YaraClient \<Rightarrow> string \<Rightarrow> request" where
  "delete_table_request c name = http ''DELETE'' (host c @ ''/table/'' @ name) None"

definition get_table_documents_request :: "YaraClient \<Rightarrow> string \<Rightarrow> request" where
  "get_table_documents_request c name =
     http ''GET'' (host c @ ''/table/'' @ name @ ''/documents'') None"

definition self_destruct_request :: "YaraClient \<Rightarrow> string \<Rightarrow> int \<Rightarrow> bool option \<Rightarrow> request" where
  "self_destruct_request c verification_phrase safety_pin confirm =
     http ''DELETE'' (host c @ ''/system/self-destruct'')
       (Some (JObj [(''verification_phrase'', JStr verification_phrase),
                    (''safety_pin'', JInt safety_pin),
                    (''confirm'', JBool (case confirm of None \<Rightarrow> True | Some b \<Rightarrow> b))]))"

definition create :: "YaraClient \<Rightarrow> (json \<Rightarrow> string) \<Rightarrow> string \<Rightarrow> string \<Rightarrow> dict \<Rightarrow> exn + json" where
  "create c repr table_name name body =
     send_and_handle c repr (create_request c table_name name body)"

definition get :: "YaraClient \<Rightarrow> (json \<Rightarrow> string) \<Rightarrow> doc_id \<Rightarrow> exn + json" where
  "get c repr doc_id = send_and_handle c repr (get_request c doc_id)"

definition find_documents :: "YaraClient \<Rightarrow> (json \<Rightarrow> string) \<Rightarrow> dict \<Rightarrow> bool option \<Rightarrow> exn + json" where
  "find_documents c repr filter_body include_archived =
     send_and_handle c repr (find_request c filter_body include_archived)"

definition update :: "YaraClient \<Rightarrow> (json \<Rightarrow> string) \<Rightarrow> doc_id \<Rightarrow> int \<Rightarrow> dict \<Rightarrow> exn + json" where
  "update c repr doc_id version body =
     send_and_handle c repr (update_request c doc_id version body)"

definition archive :: "YaraClient \<Rightarrow> (json \<Rightarrow> string) \<Rightarrow> doc_id \<Rightarrow> exn + json" where
  "archive c repr doc_id = send_and_handle c repr (archive_request c doc_id)"

definition combine ::
  "YaraClient \<Rightarrow> (json \<Rightarrow> string) \<Rightarrow> doc_id list \<Rightarrow> string \<Rightarrow> string option \<Rightarrow> exn + json" where
  "combine c repr document_ids name merge_strategy =
     send_and_handle c repr (combine_request c document_ids name merge_strategy)"

definition create_table ::
  "YaraClient \<Rightarrow> (json \<Rightarrow> string) \<Rightarrow> string \<Rightarrow> string option \<Rightarrow> dict option \<Rightarrow> string list option
     \<Rightarrow> bool option \<Rightarrow> exn + json" where
  "create_table c repr name mode schema unique_fields read_only =
     send_and_handle c repr (create_table_request c name mode schema unique_fields read_only)"

definition list_tables :: "YaraClient \<Rightarrow> (json \<Rightarrow> string) \<Rightarrow> exn + json" where
  "list_tables c repr = send_and_handle c repr (list_tables_request c)"

definition get_table :: "YaraClient \<Rightarrow> (json \<Rightarrow> string) \<Rightarrow> string \<Rightarrow> exn + json" where
  "get_table c repr name = send_and_handle c repr (get_table_request c name)"

definition delete_table :: "YaraClient \<Rightarrow> (json \<Rightarrow> string) \<Rightarrow> string \<Rightarrow> exn + json" where
  "delete_table c repr name = send_and_handle c repr (delete_table_request c name)"

definition get_table_documents :: "YaraClient \<Rightarrow> (json \<Rightarrow> string) \<Rightarrow> string \<Rightarrow> exn + json" where
  "get_table_documents c repr name =
     send_and_handle c repr (get_table_documents_request c name)"

definition self_destruct ::
  "YaraClient \<Rightarrow> (json \<Rightarrow> string) \<Rightarrow> string \<Rightarrow> int \<Rightarrow> bool option \<Rightarrow> exn + json" where
  "self_destruct c repr verification_phrase safety_pin confirm =
     send_and_handle c repr (self_destruct_request c verification_phrase safety_pin confirm)"

text \<open>
  A call of any of the twelve methods other than \<^verbatim>\<open>ping\<close>, with its arguments:
  \<open>request_of\<close> is the request the call sends, \<open>invoke\<close> its outcome.
\<close>

datatype call =
    Create string string dict
  | Get doc_id
  | Find dict "bool option"
  | Update doc_id int dict
  | Archive doc_id
  | Combine "doc_id list" string "string option"
  | CreateTable string "string option" "dict option" "string list option" "bool option"
  | ListTables
  | GetTable string
  | DeleteTable string
  | GetTableDocuments string
  | SelfDestruct string int "bool option"

fun request_of :: "YaraClient \<Rightarrow> call \<Rightarrow> request" where
  "request_of c (Create table_name name body) = create_request c table_name name body"
| "request_of c (Get doc_id) = get_request c doc_id"
| "request_of c (Find filter_body include_archived) = find_request c filter_body include_archived"
| "request_of c (Update doc_id version body) = update_request c doc_id version body"
| "request_of c (Archive doc_id) = archive_request c doc_id"
| "request_of c (Combine document_ids name merge_strategy) =
     combine_request c document_ids name merge_strategy"
| "request_of c (CreateTable name mode schema unique_fields read_only) =
     create_table_request c name mode schema unique_fields read_only"
| "request_of c ListTables = list_tables_request c"
| "request_of c (GetTable name) = get_table_request c name"
| "request_of c (DeleteTable name) = delete_table_request c name"
| "request_of c (GetTableDocuments name) = get_table_documents_request c name"
| "request_of c (SelfDestruct verification_phrase safety_pin confirm) =
     self_destruct_request c verification_phrase safety_pin confirm"

fun invoke :: "YaraClient \<Rightarrow> (json \<Rightarrow> string) \<Rightarrow> call \<Rightarrow> exn + json" where
  "invoke c repr (Create table_name name body) = create c repr table_name name body"
| "invoke c repr (Get doc_id) = get c repr doc_id"
| "invoke c repr (Find filter_body include_archived) =
     find_documents c repr filter_body include_archived"
| "invoke c repr (Update doc_id version body) = update c repr doc_id version body"
| "invoke c repr (Archive doc_id) = archive c repr doc_id"
| "invoke c repr (Combine document_ids name merge_strategy) =
     combine c repr document_ids name merge_strategy"
| "invoke c repr (CreateTable name mode schema unique_fields read_only) =
     create_table c repr name mode schema unique_fields read_only"
| "invoke c repr ListTables = list_tables c repr"
| "invoke c repr (GetTable name) = get_table c repr name"
| "invoke c repr (DeleteTable name) = delete_table c repr name"
| "invoke c repr (GetTableDocuments name) = get_table_documents c repr name"
| "invoke c repr (SelfDestruct verification_phrase safety_pin confirm) =
     self_destruct c repr verification_phrase safety_pin confirm"

section \<open>URL paths\<close>








text \<open>
  The value a string of lower-case hexadecimal digits denotes, as \<^verbatim>\<open>int(s, 16)\<close> reads
  it.
\<close>

definition digit_value :: "char \<Rightarrow> nat" where
  "digit_value ch =
     (if ch = CHR ''0'' then 0 else if ch = CHR ''1'' then 1 else if ch = CHR ''2'' then 2
      else if ch = CHR ''3'' then 3 else if ch = CHR ''4'' then 4 else if ch = CHR ''5'' then 5
      else if ch = CHR ''6'' then 6 else if ch = CHR ''7'' then 7 else if ch = CHR ''8'' then 8
      else if ch = CHR ''9'' then 9 else if ch = CHR ''a'' then 10 else if ch = CHR ''b'' then 11
      else if ch = CHR ''c'' then 12 else if ch = CHR ''d'' then 13 else if ch = CHR ''e'' then 14
      else 15)"

definition hex_value :: "string \<Rightarrow> nat" where
  "hex_value s = foldl (\<lambda>acc ch. 16 * acc + digit_value ch) 0 s"

section \<open>Concrete servers and calls\<close>

text \<open>
  A server that answers every request with the same response, a host that refuses every
  connection, a transport that fails with an exception that is no connection error, and a
  stand-in for \<^verbatim>\<open>repr\<close> on the values that are not strings.
\<close>

definition replying :: "response \<Rightarrow> request \<Rightarrow> requests_exc + response" where
  "replying r req = Inr r"

definition refusing :: "string \<Rightarrow> request \<Rightarrow> requests_exc + response" where
  "refusing why req = Inl (ConnectionError why)"

definition redirecting_forever :: "request \<Rightarrow> requests_exc + response" where
  "redirecting_forever req = Inl (OtherRequestException ''Exceeded 30 redirects.'')"

definition repr_stub :: "json \<Rightarrow> string" where
  "repr_stub v =
     (case v of JNull \<Rightarrow> ''None'' | JBool b \<Rightarrow> (if b then ''True'' else ''False'')
      | JList [] \<Rightarrow> ''[]'' | _ \<Rightarrow> ''<repr>'')"

text \<open>
  The responses of the scenarios below. The body of \<open>ok_huge_number\<close> and of
  \<open>server_error_huge_number\<close> is one integer literal of 5000 digits, on which the decoder
  raises \<^verbatim>\<open>ValueError\<close>.
\<close>

definition validation_failed :: response where
  "validation_failed =
     \<lparr>resp_status_code = 422, resp_text = ''{\"detail\":\"field required\"}'',
      resp_json = Returns (JObj [(''detail'', JStr ''field required'')])\<rparr>"

definition created_201 :: response where
  "created_201 =
     \<lparr>resp_status_code = 201, resp_text = ''{\"name\":\"t\"}'',
      resp_json = Returns (JObj [(''name'', JStr ''t'')])\<rparr>"

definition ok_document :: response where
  "ok_document =
     \<lparr>resp_status_code = 200, resp_text = ''{\"name\":\"t\"}'',
      resp_json = Returns (JObj [(''name'', JStr ''t'')])\<rparr>"

definition ok_html :: response where
  "ok_html =
     \<lparr>resp_status_code = 200, resp_text = ''<html>ok</html>'',
      resp_json = Raises_JSONDecodeError\<rparr>"

definition ok_list :: response where
  "ok_list =
     \<lparr>resp_status_code = 200, resp_text = ''[]'', resp_json = Returns (JList [])\<rparr>"

definition ok_huge_number :: response where
  "ok_huge_number =
     \<lparr>resp_status_code = 200, resp_text = replicate 5000 CHR ''1'',
      resp_json = Raises ''ValueError''\<rparr>"

definition server_error_huge_number :: response where
  "server_error_huge_number =
     \<lparr>resp_status_code = 500, resp_text = replicate 5000 CHR ''1'',
      resp_json = Raises ''ValueError''\<rparr>"

definition server_error_text :: response where
  "server_error_text =
     \<lparr>resp_status_code = 500, resp_text = ''\"oops\"'', resp_json = Returns (JStr ''oops'')\<rparr>"

definition not_found :: response where
  "not_found =
     \<lparr>resp_status_code = 404, resp_text = ''{\"detail\":\"Table not found\"}'',
      resp_json = Returns (JObj [(''detail'', JStr ''Table not found'')])\<rparr>"

definition bad_gateway :: response where
  "bad_gateway =
     \<lparr>resp_status_code = 502, resp_text = ''Bad Gateway'', resp_json = Raises_JSONDecodeError\<rparr>"

definition local_client :: "(request \<Rightarrow> requests_exc + response) \<Rightarrow> YaraClient" where
  "local_client net = YaraClient_init None net"

text \<open>The entry of a key in the JSON object a request carries as its body.\<close>

definition payload_field :: "request \<Rightarrow> string \<Rightarrow> json option" where
  "payload_field req k = (case req_json req of Some (JObj d) \<Rightarrow> map_of d k | _ \<Rightarrow> None)"

section \<open>Basic facts\<close>

lemma invoke_eq: "invoke c repr op = send_and_handle c repr (request_of c op)"
  by (cases op)
     (simp_all add: create_def get_def find_documents_def update_def archive_def combine_def
        create_table_def list_tables_def get_table_def delete_table_def
        get_table_documents_def self_destruct_def)

lemma host_local: "host (local_client net) = ''http://127.0.0.1:8000''"
  by (simp add: local_client_def YaraClient_init_def rstrip_def)

lemma session_local: "session (local_client net) = net"
  by (simp add: local_client_def YaraClient_init_def)

subsection \<open>Segments of a path\<close>















subsection \<open>The string form of a UUID\<close>

lemma length_hex_of: "length (hex_of k n) = k"
  by (induction k arbitrary: n) auto

lemma take_drop_step: "take a (drop n xs) @ drop (n + a) xs = drop n xs"
proof -
  have "take a (drop n xs) @ drop a (drop n xs) = drop n xs"
    by (rule append_take_drop_id)
  then show ?thesis by (simp add: add.commute)
qed

lemma hex_digit_in_digits: "hex_digit d \<in> set ''0123456789abcdef''"
proof -
  have "d mod 16 < length ''0123456789abcdef''" by simp
  then show ?thesis
    unfolding hex_digit_def by (rule nth_mem)
qed

lemma hex_of_in_digits: "set (hex_of k n) \<subseteq> set ''0123456789abcdef''"
proof (induction k arbitrary: n)
  case 0
  show ?case by simp
next
  case (Suc k)
  show ?case
    using Suc.IH [of "n div 16"] hex_digit_in_digits [of n] by simp
qed

lemma upt16: "[0..<16] = [0, 1, 2, 3, 4, 5, 6, 7, 8, 9, 10, 11, 12, 13, 14, 15::nat]"
  by (simp add: eval_nat_numeral upt_conv_Cons)

lemma digit_values: "map digit_value ''0123456789abcdef'' = [0..<16]"
  unfolding upt16 by (simp add: digit_value_def)

lemma digit_value_nth:
  assumes "k < 16"
  shows "digit_value (''0123456789abcdef'' ! k) = k"
proof -
  have "digit_value (''0123456789abcdef'' ! k) = map digit_value ''0123456789abcdef'' ! k"
    using assms by (subst nth_map) simp_all
  also have "\<dots> = [0..<16] ! k"
    by (simp only: digit_values)
  also have "\<dots> = k"
    using assms by simp
  finally show ?thesis .
qed

lemma digit_value_hex_digit: "digit_value (hex_digit d) = d mod 16"
  unfolding hex_digit_def by (rule digit_value_nth) simp

lemma hex_value_snoc: "hex_value (s @ [ch]) = 16 * hex_value s + digit_value ch"
  by (simp add: hex_value_def)

lemma hex_value_hex_of: "hex_value (hex_of k n) = n mod 16 ^ k"
proof (induction k arbitrary: n)
  case 0
  show ?case by (simp add: hex_value_def)
next
  case (Suc k)
  have "n mod (16 * 16 ^ k) = 16 * (n div 16 mod 16 ^ k) + n mod 16"
    by (rule mod_mult2_eq)
  then show ?case
    using Suc.IH [of "n div 16"] by (simp add: hex_value_snoc digit_value_hex_digit)
qed

lemma hex_value_hex_of_unat: "hex_value (hex_of 32 (unat (u :: 128 word))) = unat u"
proof -
  have "unat u < 2 ^ 128"
    using unsigned_less [of u] by simp
  moreover have "(2::nat) ^ 128 = 16 ^ 32"
    by simp
  ultimately have "unat u mod 16 ^ 32 = unat u"
    by simp
  then show ?thesis
    by (simp add: hex_value_hex_of)
qed

text \<open>
  Five groups of 8, 4, 4, 4 and 12 lower-case hexadecimal digits, which read together as
  one hexadecimal number give the 128-bit value.
\<close>

lemma UUID_str_groups:
  "\<exists>a b c d e. UUID_str u = a @ ''-'' @ b @ ''-'' @ c @ ''-'' @ d @ ''-'' @ e
     \<and> length a = 8 \<and> length b = 4 \<and> length c = 4 \<and> length d = 4 \<and> length e = 12
     \<and> set (a @ b @ c @ d @ e) \<subseteq> set ''0123456789abcdef''
     \<and> hex_value (a @ b @ c @ d @ e) = unat u"
proof -
  let ?h = "hex_of 32 (unat u)"
  have 1: "take 4 (drop 16 ?h) @ drop 20 ?h = drop 16 ?h"
    using take_drop_step [of 4 16 ?h] by simp
  have 2: "take 4 (drop 12 ?h) @ drop 16 ?h = drop 12 ?h"
    using take_drop_step [of 4 12 ?h] by simp
  have 3: "take 4 (drop 8 ?h) @ drop 12 ?h = drop 8 ?h"
    using take_drop_step [of 4 8 ?h] by simp
  have all: "take 8 ?h @ take 4 (drop 8 ?h) @ take 4 (drop 12 ?h) @ take 4 (drop 16 ?h)
               @ drop 20 ?h = ?h"
    by (simp only: 1 2 3 append_take_drop_id)
  have digits: "set ?h \<subseteq> set ''0123456789abcdef''"
    by (rule hex_of_in_digits)
  have val: "hex_value ?h = unat u"
    by (rule hex_value_hex_of_unat)
  show ?thesis
    unfolding UUID_str_def Let_def
    apply (intro exI conjI)
           apply (rule refl)
          apply (simp add: length_hex_of)
         apply (simp add: length_hex_of)
        apply (simp add: length_hex_of)
       apply (simp add: length_hex_of)
      apply (simp add: length_hex_of)
     apply (simp only: all digits)
    apply (simp only: all val)
    done
qed

lemma hex_of_numeral:
  "hex_of (numeral k) n = hex_of (pred_numeral k) (n div 16) @ [hex_digit n]"
  unfolding numeral_eq_Suc [of k] by simp

lemma hex_of_example:
  "hex_of 32 0x123e4567e89b12d3a456426614174000 = ''123e4567e89b12d3a456426614174000''"
  by (simp add: hex_of_numeral hex_digit_def)

lemma UUID_str_example:
  "UUID_str 0x123e4567e89b12d3a456426614174000 = ''123e4567-e89b-12d3-a456-426614174000''"
  by (simp add: UUID_str_def Let_def hex_of_example)

section \<open>Status codes and error classes\<close>

text \<open>
  When \<^verbatim>\<open>error_detail\<close> is bound, the class of the error is decided by the status: 404
  not-found, 409 conflict, 400 bad-request, 422 bad-request with the message prefixed by
  \<^verbatim>\<open>Validation Error: \<close>, and the base class \<open>YaraError\<close> for every other status; the
  status code of the error is the status received.
\<close>

lemma error_class_of_status:
  assumes "session c (request_of c op) = Inr r"
    and "resp_status_code r \<noteq> 200"
    and "error_detail repr r = Inr detail"
  shows "invoke c repr op
         = Inl (Yara \<lparr>cls = (if resp_status_code r = 404 then YaraNotFoundError
                             else if resp_status_code r = 409 then YaraConflictError
                             else if resp_status_code r = 400 \<or> resp_status_code r = 422
                               then YaraBadRequestError
                             else YaraError),
                      message = (if resp_status_code r = 422
                                 then JStr (''Validation Error: '' @ py_str repr detail)
                                 else detail),
                      status_code = Some (resp_status_code r)\<rparr>)"
  using assms
  by (simp add: invoke_eq send_and_handle_def handle_response_def YaraError_init_def)

lemma error_detail_bound:
  assumes "resp_json r = Returns v \<or> resp_json r = Raises_JSONDecodeError"
  shows "\<exists>detail. error_detail repr r = Inr detail"
  using assms by (auto simp: error_detail_def split: json.splits)

text \<open>
  Claim C1 says that every response with a status outside 200..299 raises one of the
  client's errors with that status code. It does not when \<^verbatim>\<open>response.json()\<close> raises an
  exception that is not \<^verbatim>\<open>requests.JSONDecodeError\<close>: the \<^verbatim>\<open>try\<close> of the lines 51 to 58
  catches that class only, so for a 500 response whose body is an integer literal of 5000
  digits the \<^verbatim>\<open>ValueError\<close> of the decoder leaves \<^verbatim>\<open>get\<close> as it is, with no status code.
\<close>

theorem non_200_decoder_exception_escapes:
  "resp_status_code server_error_huge_number = 500
   \<and> resp_json server_error_huge_number = Raises ''ValueError''
   \<and> invoke (local_client (replying server_error_huge_number)) repr_stub (Get (IdStr ''abc''))
       = Inl (PyException ''ValueError'')"
  by (simp add: invoke_eq send_and_handle_def handle_response_def error_detail_def
        session_local replying_def server_error_huge_number_def)

section \<open>The liveness check\<close>

text \<open>
  \<^verbatim>\<open>ping\<close> turns a connection failure or a timeout of the transport, and every status
  other than 200, into \<open>False\<close>.
\<close>

lemma ping_transport_failure:
  assumes "session c (ping_request c) = Inl e"
    and "isinstance_ConnectionError e \<or> isinstance_Timeout e"
  shows "ping c = Inr False"
  using assms by (auto simp: ping_def)

lemma ping_other_status:
  assumes "session c (ping_request c) = Inr r" and "resp_status_code r \<noteq> 200"
  shows "ping c = Inr False"
  using assms by (simp add: ping_def)

text \<open>
  Claim C2 says that \<^verbatim>\<open>ping\<close> never raises. It does: \<^verbatim>\<open>response.json()\<close> is called
  with only \<^verbatim>\<open>ConnectionError\<close> and \<^verbatim>\<open>Timeout\<close> caught, so a 200 response whose body is
  not JSON raises \<^verbatim>\<open>requests.JSONDecodeError\<close>, and a 200 response whose body is JSON but
  not an object raises \<^verbatim>\<open>AttributeError\<close> at \<^verbatim>\<open>.get\<close>.
\<close>

theorem ping_raises_on_200_without_json_object:
  "ping (local_client (replying ok_html)) = Inl JSONDecodeError
   \<and> ping (local_client (replying ok_list)) = Inl AttributeError"
  by (simp add: ping_def session_local replying_def ok_html_def ok_list_def)

section \<open>Success and failure of a call\<close>

text \<open>
  Claim C3 as stated fails in three ways. Success is not every 2xx status: a 201 response
  with a decodable body makes \<^verbatim>\<open>create_table\<close> raise \<open>YaraError\<close> with status code 201.
  An exception of the transport that is no \<^verbatim>\<open>ConnectionError\<close> reaches the caller as it
  is, which is neither the decoded body nor one of the client's errors. And an exception
  of \<^verbatim>\<open>response.json()\<close> other than \<^verbatim>\<open>requests.JSONDecodeError\<close> reaches the caller as it
  is.
\<close>

theorem call_outcomes_outside_the_claim:
  "resp_status_code created_201 = 201
   \<and> resp_json created_201 = Returns (JObj [(''name'', JStr ''t'')])
   \<and> invoke (local_client (replying created_201)) repr_stub
        (CreateTable ''t'' None None None None)
      = Inl (Yara \<lparr>cls = YaraError, message = JStr ''Unknown API error'',
                   status_code = Some 201\<rparr>)
   \<and> invoke (local_client redirecting_forever) repr_stub ListTables
      = Inl (Raised (OtherRequestException ''Exceeded 30 redirects.''))
   \<and> invoke (local_client (replying server_error_huge_number)) repr_stub (DeleteTable ''t'')
      = Inl (PyException ''ValueError'')"
  by (simp add: invoke_eq send_and_handle_def handle_response_def YaraError_init_def
        session_local replying_def redirecting_forever_def created_201_def
        server_error_huge_number_def error_detail_def dict_get_def)

text \<open>
  Claim C3, amended. For every method other than \<^verbatim>\<open>ping\<close>: the call returns a value
  exactly when the transport delivers a response with status 200 whose body decodes, and
  the value is the decoded body; a response with any other status, whose body decodes or
  fails with \<^verbatim>\<open>requests.JSONDecodeError\<close>, raises one of the client's errors with that status
  code; a 200 response whose body fails with \<^verbatim>\<open>requests.JSONDecodeError\<close> raises one with
  status code 200; a \<^verbatim>\<open>requests.ConnectionError\<close> raises \<open>YaraConnectionError\<close>; and any
  other exception of the transport reaches the caller unchanged.
\<close>

theorem outcomes_of_a_call:
  "(session c (request_of c op) = Inr r \<and> resp_status_code r = 200 \<and> resp_json r = Returns v
      \<longrightarrow> invoke c repr op = Inr v)
   \<and> (invoke c repr op = Inr v
      \<longrightarrow> (\<exists>r'. session c (request_of c op) = Inr r' \<and> resp_status_code r' = 200
                \<and> resp_json r' = Returns v))
   \<and> (session c (request_of c op) = Inr r \<and> resp_status_code r \<noteq> 200
        \<and> (resp_json r = Returns v \<or> resp_json r = Raises_JSONDecodeError)
      \<longrightarrow> (\<exists>e. invoke c repr op = Inl (Yara e)
                \<and> status_code e = Some (resp_status_code r)))
   \<and> (session c (request_of c op) = Inr r \<and> resp_status_code r = 200
        \<and> resp_json r = Raises_JSONDecodeError
      \<longrightarrow> (\<exists>e. invoke c repr op = Inl (Yara e) \<and> status_code e = Some 200))
   \<and> (session c (request_of c op) = Inl x \<and> isinstance_ConnectionError x
      \<longrightarrow> (\<exists>e. invoke c repr op = Inl (Yara e) \<and> cls e = YaraConnectionError
                \<and> status_code e = None))
   \<and> (session c (request_of c op) = Inl x \<and> \<not> isinstance_ConnectionError x
      \<longrightarrow> invoke c repr op = Inl (Raised x))"
proof (intro conjI impI)
  assume "session c (request_of c op) = Inr r \<and> resp_status_code r = 200 \<and> resp_json r = Returns v"
  then show "invoke c repr op = Inr v"
    by (simp add: invoke_eq send_and_handle_def handle_response_def)
next
  assume ret: "invoke c repr op = Inr v"
  show "\<exists>r'. session c (request_of c op) = Inr r' \<and> resp_status_code r' = 200
          \<and> resp_json r' = Returns v"
  proof (cases "session c (request_of c op)")
    case (Inl x')
    then show ?thesis
      using ret by (simp add: invoke_eq send_and_handle_def split: if_splits)
  next
    case (Inr r')
    then show ?thesis
      using ret
      by (auto simp: invoke_eq send_and_handle_def handle_response_def
            split: if_splits json_outcome.splits sum.splits)
  qed
next
  assume a: "session c (request_of c op) = Inr r \<and> resp_status_code r \<noteq> 200
        \<and> (resp_json r = Returns v \<or> resp_json r = Raises_JSONDecodeError)"
  then obtain detail where "error_detail repr r = Inr detail"
    using error_detail_bound [of r v repr] by auto
  then show "\<exists>e. invoke c repr op = Inl (Yara e) \<and> status_code e = Some (resp_status_code r)"
    using a error_class_of_status [of c op r repr detail] by simp
next
  assume "session c (request_of c op) = Inr r \<and> resp_status_code r = 200
        \<and> resp_json r = Raises_JSONDecodeError"
  then show "\<exists>e. invoke c repr op = Inl (Yara e) \<and> status_code e = Some 200"
    by (simp add: invoke_eq send_and_handle_def handle_response_def YaraError_init_def)
next
  assume "session c (request_of c op) = Inl x \<and> isinstance_ConnectionError x"
  then show "\<exists>e. invoke c repr op = Inl (Yara e) \<and> cls e = YaraConnectionError
          \<and> status_code e = None"
    by (simp add: invoke_eq send_and_handle_def YaraConnectionError_init_def YaraError_init_def)
next
  assume "session c (request_of c op) = Inl x \<and> \<not> isinstance_ConnectionError x"
  then show "invoke c repr op = Inl (Raised x)"
    by (simp add: invoke_eq send_and_handle_def)
qed

text \<open>
  Claim C3, amended, at \<^verbatim>\<open>get("abc")\<close>: answered with 200 and a JSON object the body is
  returned; answered with 502 and plain text, or with 200 and an HTML page, the call raises
  one of the client's errors with the status code; on a refused connection it raises
  \<open>YaraConnectionError\<close>; and on a redirect loop the exception of the transport comes out.
\<close>

theorem outcomes_of_a_call_witness:
  "session (local_client (replying ok_document))
     (request_of (local_client (replying ok_document)) (Get (IdStr ''abc''))) = Inr ok_document
   \<and> resp_status_code ok_document = 200
   \<and> resp_json ok_document = Returns (JObj [(''name'', JStr ''t'')])
   \<and> invoke (local_client (replying ok_document)) repr_stub (Get (IdStr ''abc''))
       = Inr (JObj [(''name'', JStr ''t'')])
   \<and> session (local_client (replying bad_gateway))
       (request_of (local_client (replying bad_gateway)) (Get (IdStr ''abc''))) = Inr bad_gateway
   \<and> resp_status_code bad_gateway \<noteq> 200 \<and> resp_json bad_gateway = Raises_JSONDecodeError
   \<and> (\<exists>e. invoke (local_client (replying bad_gateway)) repr_stub (Get (IdStr ''abc''))
              = Inl (Yara e) \<and> status_code e = Some 502)
   \<and> session (local_client (replying ok_html))
       (request_of (local_client (replying ok_html)) (Get (IdStr ''abc''))) = Inr ok_html
   \<and> resp_status_code ok_html = 200 \<and> resp_json ok_html = Raises_JSONDecodeError
   \<and> (\<exists>e. invoke (local_client (replying ok_html)) repr_stub (Get (IdStr ''abc''))
              = Inl (Yara e) \<and> status_code e = Some 200)
   \<and> session (local_client (refusing ''Connection refused''))
       (request_of (local_client (refusing ''Connection refused'')) (Get (IdStr ''abc'')))
       = Inl (ConnectionError ''Connection refused'')
   \<and> isinstance_ConnectionError (ConnectionError ''Connection refused'')
   \<and> (\<exists>e. invoke (local_client (refusing ''Connection refused'')) repr_stub (Get (IdStr ''abc''))
              = Inl (Yara e) \<and> cls e = YaraConnectionError \<and> status_code e = None)
   \<and> session (local_client redirecting_forever)
       (request_of (local_client redirecting_forever) (Get (IdStr ''abc'')))
       = Inl (OtherRequestException ''Exceeded 30 redirects.'')
   \<and> \<not> isinstance_ConnectionError (OtherRequestException ''Exceeded 30 redirects.'')
   \<and> invoke (local_client redirecting_forever) repr_stub (Get (IdStr ''abc''))
       = Inl (Raised (OtherRequestException ''Exceeded 30 redirects.''))"
  using outcomes_of_a_call
          [of "local_client (replying ok_document)" "Get (IdStr ''abc'')" ok_document
              "JObj [(''name'', JStr ''t'')]" repr_stub]
        outcomes_of_a_call
          [of "local_client (replying bad_gateway)" "Get (IdStr ''abc'')" bad_gateway
              JNull repr_stub]
        outcomes_of_a_call
          [of "local_client (replying ok_html)" "Get (IdStr ''abc'')" ok_html
              JNull repr_stub]
        outcomes_of_a_call
          [of "local_client (refusing ''Connection refused'')" "Get (IdStr ''abc'')" _
              JNull repr_stub "ConnectionError ''Connection refused''"]
        outcomes_of_a_call
          [of "local_client redirecting_forever" "Get (IdStr ''abc'')" _
              JNull repr_stub "OtherRequestException ''Exceeded 30 redirects.''"]
  by (simp add: session_local replying_def refusing_def redirecting_forever_def
        ok_document_def bad_gateway_def ok_html_def)

text \<open>
  A 200 response on which \<^verbatim>\<open>response.json()\<close> raises \<^verbatim>\<open>requests.JSONDecodeError\<close> raises
  the base error \<open>YaraError\<close> with status code 200 and the message
  \<^verbatim>\<open>Invalid JSON response from server\<close>.
\<close>

lemma json_decode_error_at_200:
  assumes "session c (request_of c op) = Inr r"
    and "resp_status_code r = 200"
    and "resp_json r = Raises_JSONDecodeError"
  shows "invoke c repr op
         = Inl (Yara \<lparr>cls = YaraError, message = JStr ''Invalid JSON response from server'',
                      status_code = Some 200\<rparr>)"
  using assms
  by (simp add: invoke_eq send_and_handle_def handle_response_def YaraError_init_def)

text \<open>
  Claim C4 says that a 200 response whose body fails to decode raises the generic error
  with status code 200. It does not for every such body: line 48 catches
  \<^verbatim>\<open>requests.JSONDecodeError\<close> only, so when the decoder fails with \<^verbatim>\<open>ValueError\<close> (an
  integer literal of 5000 digits) that exception leaves \<^verbatim>\<open>list_tables\<close> as it is.
\<close>

theorem status_200_decoder_exception_escapes:
  "resp_status_code ok_huge_number = 200
   \<and> resp_json ok_huge_number = Raises ''ValueError''
   \<and> invoke (local_client (replying ok_huge_number)) repr_stub ListTables
       = Inl (PyException ''ValueError'')"
  by (simp add: invoke_eq send_and_handle_def handle_response_def
        session_local replying_def ok_huge_number_def)

text \<open>
  Claim C5. For every method other than \<^verbatim>\<open>ping\<close>: a \<^verbatim>\<open>requests.ConnectionError\<close> of the
  transport is raised again as \<open>YaraConnectionError\<close>, whose message holds the host and the
  text of the original exception and whose status code is \<^verbatim>\<open>None\<close>; the exception of the
  transport itself does not reach the caller.
\<close>

theorem connection_failure_raises_YaraConnectionError:
  assumes "session c (request_of c op) = Inl e"
    and "isinstance_ConnectionError e"
  shows "invoke c repr op
         = Inl (Yara \<lparr>cls = YaraConnectionError,
                      message = JStr (''Failed to connect to '' @ host c
                                      @ ''. Is the server running? Error: '' @ exc_str e),
                      status_code = None\<rparr>)"
  using assms
  by (simp add: invoke_eq send_and_handle_def YaraConnectionError_init_def YaraError_init_def)

text \<open>Claim C5, at \<^verbatim>\<open>self_destruct\<close> against a host that refuses the connection.\<close>

theorem connection_failure_raises_YaraConnectionError_witness:
  "session (local_client (refusing ''Connection refused''))
     (request_of (local_client (refusing ''Connection refused''))
        (SelfDestruct ''BDaray'' 2027 None))
     = Inl (ConnectionError ''Connection refused'')
   \<and> isinstance_ConnectionError (ConnectionError ''Connection refused'')
   \<and> invoke (local_client (refusing ''Connection refused'')) repr_stub
        (SelfDestruct ''BDaray'' 2027 None)
       = Inl (Yara \<lparr>cls = YaraConnectionError,
                    message = JStr ''Failed to connect to http://127.0.0.1:8000. Is the server running? Error: Connection refused'',
                    status_code = None\<rparr>)"
  using connection_failure_raises_YaraConnectionError
          [of "local_client (refusing ''Connection refused'')"
              "SelfDestruct ''BDaray'' 2027 None" "ConnectionError ''Connection refused''"
              repr_stub]
  by (simp add: session_local host_local refusing_def)

section \<open>The error message\<close>

text \<open>
  Claim C6 as stated fails in two ways. At status 422 the message is not the value derived
  from the body: the body \<^verbatim>\<open>{"detail":"field required"}\<close> gives the message
  \<^verbatim>\<open>Validation Error: field required\<close>, which is not the \<^verbatim>\<open>detail\<close> entry. And when
  decoding fails with an exception other than \<^verbatim>\<open>requests.JSONDecodeError\<close>, no message is
  derived at all: the exception of the decoder reaches the caller.
\<close>

theorem message_not_derived_as_claimed:
  "resp_status_code validation_failed \<noteq> 200
   \<and> resp_json validation_failed = Returns (JObj [(''detail'', JStr ''field required'')])
   \<and> invoke (local_client (replying validation_failed)) repr_stub (Get (IdStr ''abc''))
       = Inl (Yara \<lparr>cls = YaraBadRequestError,
                    message = JStr ''Validation Error: field required'',
                    status_code = Some 422\<rparr>)
   \<and> JStr ''Validation Error: field required'' \<noteq> JStr ''field required''
   \<and> resp_status_code server_error_huge_number \<noteq> 200
   \<and> resp_json server_error_huge_number = Raises ''ValueError''
   \<and> invoke (local_client (replying server_error_huge_number)) repr_stub (Archive (IdStr ''abc''))
       = Inl (PyException ''ValueError'')"
  by (simp add: invoke_eq send_and_handle_def handle_response_def YaraError_init_def
        session_local replying_def validation_failed_def server_error_huge_number_def
        error_detail_def dict_get_def py_str_def)

text \<open>
  Claim C6, amended. For every status other than 200 a value is derived from the body: the
  \<^verbatim>\<open>detail\<close> entry when the body decodes as a JSON object (\<^verbatim>\<open>Unknown API error\<close> when it has
  no such key), the string form of the value when it decodes as any other JSON value, and,
  when decoding fails with \<^verbatim>\<open>requests.JSONDecodeError\<close>, the text of the response
  (\<^verbatim>\<open>Unknown API error\<close> when the text is empty). The message of the error is this value for
  every status but 422, and for 422 it is \<^verbatim>\<open>Validation Error: \<close> followed by the string
  form of this value.
\<close>

theorem error_message_derived_from_body:
  assumes "session c (request_of c op) = Inr r"
    and "resp_status_code r \<noteq> 200"
  shows
    "(resp_json r = Returns (JObj d) \<longrightarrow>
        (\<exists>e. invoke c repr op = Inl (Yara e)
           \<and> message e =
               (let derived = (case map_of d ''detail'' of
                                 Some v \<Rightarrow> v
                               | None \<Rightarrow> JStr ''Unknown API error'')
                in if resp_status_code r = 422
                   then JStr (''Validation Error: '' @ py_str repr derived)
                   else derived)))
     \<and> (resp_json r = Returns w \<and> (\<forall>d'. w \<noteq> JObj d') \<longrightarrow>
        (\<exists>e. invoke c repr op = Inl (Yara e)
           \<and> message e =
               (let derived = JStr (py_str repr w)
                in if resp_status_code r = 422
                   then JStr (''Validation Error: '' @ py_str repr derived)
                   else derived)))
     \<and> (resp_json r = Raises_JSONDecodeError \<longrightarrow>
        (\<exists>e. invoke c repr op = Inl (Yara e)
           \<and> message e =
               (let derived = (if resp_text r = [] then JStr ''Unknown API error''
                               else JStr (resp_text r))
                in if resp_status_code r = 422
                   then JStr (''Validation Error: '' @ py_str repr derived)
                   else derived)))"
proof (intro conjI impI)
  assume "resp_json r = Returns (JObj d)"
  then have "error_detail repr r
             = Inr (case map_of d ''detail'' of Some v \<Rightarrow> v | None \<Rightarrow> JStr ''Unknown API error'')"
    by (simp add: error_detail_def dict_get_def)
  then show "\<exists>e. invoke c repr op = Inl (Yara e)
           \<and> message e =
               (let derived = (case map_of d ''detail'' of
                                 Some v \<Rightarrow> v
                               | None \<Rightarrow> JStr ''Unknown API error'')
                in if resp_status_code r = 422
                   then JStr (''Validation Error: '' @ py_str repr derived)
                   else derived)"
    using error_class_of_status [OF assms] by (simp add: Let_def)
next
  assume "resp_json r = Returns w \<and> (\<forall>d'. w \<noteq> JObj d')"
  then have "error_detail repr r = Inr (JStr (py_str repr w))"
    by (cases w) (simp_all add: error_detail_def)
  then show "\<exists>e. invoke c repr op = Inl (Yara e)
           \<and> message e =
               (let derived = JStr (py_str repr w)
                in if resp_status_code r = 422
                   then JStr (''Validation Error: '' @ py_str repr derived)
                   else derived)"
    using error_class_of_status [OF assms] by (simp add: Let_def)
next
  assume "resp_json r = Raises_JSONDecodeError"
  then have "error_detail repr r
             = Inr (if resp_text r = [] then JStr ''Unknown API error'' else JStr (resp_text r))"
    by (simp add: error_detail_def)
  then show "\<exists>e. invoke c repr op = Inl (Yara e)
           \<and> message e =
               (let derived = (if resp_text r = [] then JStr ''Unknown API error''
                               else JStr (resp_text r))
                in if resp_status_code r = 422
                   then JStr (''Validation Error: '' @ py_str repr derived)
                   else derived)"
    using error_class_of_status [OF assms] by (simp add: Let_def)
qed

text \<open>
  Claim C6, amended, at \<^verbatim>\<open>archive("abc")\<close>: answered with 404 and
  \<^verbatim>\<open>{"detail":"Table not found"}\<close>, with 500 and the JSON string \<^verbatim>\<open>"oops"\<close>, and with 502
  and the plain text \<^verbatim>\<open>Bad Gateway\<close>.
\<close>

theorem error_message_derived_from_body_witness:
  "session (local_client (replying not_found))
     (request_of (local_client (replying not_found)) (Archive (IdStr ''abc''))) = Inr not_found
   \<and> resp_status_code not_found \<noteq> 200
   \<and> resp_json not_found = Returns (JObj [(''detail'', JStr ''Table not found'')])
   \<and> (\<exists>e. invoke (local_client (replying not_found)) repr_stub (Archive (IdStr ''abc''))
              = Inl (Yara e)
          \<and> message e = JStr ''Table not found'')
   \<and> session (local_client (replying server_error_text))
       (request_of (local_client (replying server_error_text)) (Archive (IdStr ''abc'')))
       = Inr server_error_text
   \<and> resp_status_code server_error_text \<noteq> 200
   \<and> resp_json server_error_text = Returns (JStr ''oops'')
   \<and> (\<forall>d'. JStr ''oops'' \<noteq> JObj d')
   \<and> (\<exists>e. invoke (local_client (replying server_error_text)) repr_stub (Archive (IdStr ''abc''))
              = Inl (Yara e)
          \<and> message e = JStr ''oops'')
   \<and> session (local_client (replying bad_gateway))
       (request_of (local_client (replying bad_gateway)) (Archive (IdStr ''abc'')))
       = Inr bad_gateway
   \<and> resp_status_code bad_gateway \<noteq> 200
   \<and> resp_json bad_gateway = Raises_JSONDecodeError
   \<and> (\<exists>e. invoke (local_client (replying bad_gateway)) repr_stub (Archive (IdStr ''abc''))
              = Inl (Yara e)
          \<and> message e = JStr ''Bad Gateway'')"
  using error_message_derived_from_body
          [of "local_client (replying not_found)" "Archive (IdStr ''abc'')" not_found
              "[(''detail'', JStr ''Table not found'')]" repr_stub JNull]
        error_message_derived_from_body
          [of "local_client (replying server_error_text)" "Archive (IdStr ''abc'')"
              server_error_text "[]" repr_stub "JStr ''oops''"]
        error_message_derived_from_body
          [of "local_client (replying bad_gateway)" "Archive (IdStr ''abc'')" bad_gateway
              "[]" repr_stub JNull]
  by (simp add: session_local replying_def not_found_def server_error_text_def
        bad_gateway_def py_str_def)

section \<open>Request payloads and URLs\<close>

text \<open>
  Claim C7 as stated, the optional keys being present exactly when the arguments are
  supplied, fails for an argument that is supplied but empty: \<^verbatim>\<open>create_table("t",
  mode="strict", schema={}, unique_fields=[])\<close> sends neither \<^verbatim>\<open>schema_definition\<close> nor
  \<^verbatim>\<open>unique_fields\<close>.
\<close>

theorem empty_schema_and_unique_fields_are_left_out:
  "(Some [] :: dict option) \<noteq> None
   \<and> (Some [] :: string list option) \<noteq> None
   \<and> req_json (create_table_request (local_client (replying ok_document))
         ''t'' (Some ''strict'') (Some []) (Some []) None)
       = Some (JObj [(''name'', JStr ''t''), (''mode'', JStr ''strict''),
                     (''read_only'', JBool False)])
   \<and> payload_field
        (create_table_request (local_client (replying ok_document))
           ''t'' (Some ''strict'') (Some []) (Some []) None) ''schema_definition'' = None
   \<and> payload_field
        (create_table_request (local_client (replying ok_document))
           ''t'' (Some ''strict'') (Some []) (Some []) None) ''unique_fields'' = None"
  by (simp add: payload_field_def create_table_request_def create_table_payload_def http_def)

text \<open>
  Claim C7, amended. The payload of \<^verbatim>\<open>create_table\<close> has the key \<^verbatim>\<open>schema_definition\<close>
  exactly when a schema is supplied and is not empty, and the key \<^verbatim>\<open>unique_fields\<close> exactly
  when a list of unique fields is supplied and is not empty, each with the value supplied;
  it never has them when the arguments are left out. With \<^verbatim>\<open>mode="strict"\<close> and no schema
  the request is still sent, its payload holding \<^verbatim>\<open>name\<close>, \<^verbatim>\<open>mode\<close> and \<^verbatim>\<open>read_only\<close>
  only.
\<close>

theorem create_table_optional_keys:
  "payload_field (create_table_request c name mode schema unique_fields read_only)
     ''schema_definition''
     = (case schema of None \<Rightarrow> None | Some d \<Rightarrow> if d \<noteq> [] then Some (JObj d) else None)
   \<and> payload_field (create_table_request c name mode schema unique_fields read_only)
       ''unique_fields''
     = (case unique_fields of
          None \<Rightarrow> None
        | Some fs \<Rightarrow> if fs \<noteq> [] then Some (JList (map JStr fs)) else None)
   \<and> create_table c repr name (Some ''strict'') None None read_only
     = send_and_handle c repr
         (http ''POST'' (host c @ ''/table/create'')
            (Some (JObj [(''name'', JStr name), (''mode'', JStr ''strict''),
                         (''read_only'',
                          JBool (case read_only of None \<Rightarrow> False | Some b \<Rightarrow> b))])))"
  by (simp add: payload_field_def create_table_request_def create_table_payload_def http_def
        create_table_def Let_def split: option.splits)

text \<open>
  Claim C8. A document identifier given as a UUID is sent in its canonical string form: in
  the URL path of \<^verbatim>\<open>get\<close>, \<^verbatim>\<open>update\<close> and \<^verbatim>\<open>archive\<close>, and, for every identifier of the
  list, in the \<^verbatim>\<open>document_ids\<close> entry of the body of \<^verbatim>\<open>combine\<close> (a string is sent as it
  is). The string form is canonical: five groups of 8, 4, 4, 4 and 12 characters joined by
  hyphens, every character of a group one of \<^verbatim>\<open>0123456789abcdef\<close>, and the 32 digits read
  as one hexadecimal number are the 128-bit value of the UUID; the UUID
  \<^verbatim>\<open>123e4567-e89b-12d3-a456-426614174000\<close> is sent as exactly these 36 characters.
\<close>

theorem uuid_sent_in_string_form:
  "req_url (get_request c (IdUUID u)) = host c @ ''/document/get/'' @ UUID_str u
   \<and> req_url (update_request c (IdUUID u) version body)
       = host c @ ''/document/update/'' @ UUID_str u
   \<and> req_url (archive_request c (IdUUID u)) = host c @ ''/document/archive/'' @ UUID_str u
   \<and> payload_field (combine_request c document_ids name merge_strategy) ''document_ids''
       = Some (JList (map (\<lambda>d. JStr (case d of IdStr s \<Rightarrow> s | IdUUID w \<Rightarrow> UUID_str w))
                        document_ids))
   \<and> (\<exists>g1 g2 g3 g4 g5.
         UUID_str u = g1 @ ''-'' @ g2 @ ''-'' @ g3 @ ''-'' @ g4 @ ''-'' @ g5
         \<and> length g1 = 8 \<and> length g2 = 4 \<and> length g3 = 4 \<and> length g4 = 4 \<and> length g5 = 12
         \<and> set (g1 @ g2 @ g3 @ g4 @ g5) \<subseteq> set ''0123456789abcdef''
         \<and> hex_value (g1 @ g2 @ g3 @ g4 @ g5) = unat u)
   \<and> req_url (get_request c (IdUUID 0x123e4567e89b12d3a456426614174000))
       = host c @ ''/document/get/123e4567-e89b-12d3-a456-426614174000''
   \<and> payload_field
        (combine_request c [IdUUID 0x123e4567e89b12d3a456426614174000, IdStr ''abc''] name
           merge_strategy) ''document_ids''
       = Some (JList [JStr ''123e4567-e89b-12d3-a456-426614174000'', JStr ''abc''])"
proof -
  have "str_doc_id = (\<lambda>d. case d of IdStr s \<Rightarrow> s | IdUUID w \<Rightarrow> UUID_str w)"
    by (rule ext) (simp split: doc_id.split)
  then have general:
    "req_url (get_request c (IdUUID u)) = host c @ ''/document/get/'' @ UUID_str u
     \<and> req_url (update_request c (IdUUID u) version body)
         = host c @ ''/document/update/'' @ UUID_str u
     \<and> req_url (archive_request c (IdUUID u)) = host c @ ''/document/archive/'' @ UUID_str u
     \<and> payload_field (combine_request c document_ids name merge_strategy) ''document_ids''
         = Some (JList (map (\<lambda>d. JStr (case d of IdStr s \<Rightarrow> s | IdUUID w \<Rightarrow> UUID_str w))
                          document_ids))"
    by (simp add: get_request_def update_request_def archive_request_def combine_request_def
          http_def payload_field_def)
  have example:
    "req_url (get_request c (IdUUID 0x123e4567e89b12d3a456426614174000))
       = host c @ ''/document/get/123e4567-e89b-12d3-a456-426614174000''
     \<and> payload_field
          (combine_request c [IdUUID 0x123e4567e89b12d3a456426614174000, IdStr ''abc''] name
             merge_strategy) ''document_ids''
       = Some (JList [JStr ''123e4567-e89b-12d3-a456-426614174000'', JStr ''abc''])"
    by (simp add: get_request_def combine_request_def http_def payload_field_def
          UUID_str_example)
  show ?thesis
    using general example UUID_str_groups [of u] by simp
qed

text \<open>
  Claim C9. A call of \<^verbatim>\<open>combine\<close> that gives no merge strategy sends the payload entry
  \<^verbatim>\<open>merge_strategy\<close> with the value \<^verbatim>\<open>overwrite\<close>.
\<close>

theorem combine_default_merge_strategy:
  "payload_field (combine_request c document_ids name None) ''merge_strategy''
     = Some (JStr ''overwrite'')"
  by (simp add: combine_request_def http_def payload_field_def)




end
